theory Spec2Isabelle
  imports Complex_Main
begin

text \<open>
  The relay of \<^verbatim>\<open>gaode/app.py\<close>: a webhook handler that starts one turn per text
  message, and the turn, which reads the streamed answer of the AI backend event by
  event, forwards the accumulated text to the chat in chunks and records the conversation
  identifier. Network calls, the clock and library functions are parameters
  (\<open>world\<close>); exceptions are values; a turn is run from start to end without
  interleaving.
\<close>

section \<open>Python values\<close>

text \<open>
  A Python \<^verbatim>\<open>str\<close> is a sequence of code points and \<^verbatim>\<open>len\<close> counts
  code points, so a string is a list of code-point numbers. \<open>py\<close> embeds an
  ASCII literal; the non-ASCII literals of the source are written out as code points.
\<close>

type_synonym pystr = "nat list"

definition py :: "string \<Rightarrow> pystr" where
  "py s = map of_char s"

text \<open>A finite float is kept by its exact value; \<^verbatim>\<open>-0.0\<close>, the infinities and NaN apart.\<close>

datatype pyfloat = FVal rat | FNegZero | FInf bool | FNaN

text \<open>
  What \<^verbatim>\<open>json.loads\<close> returns: \<^verbatim>\<open>None\<close>, a bool, an int, a float, a str,
  a list, or a dict (its items, keys distinct).
\<close>

datatype json =
    JNull
  | JBool bool
  | JInt int
  | JFloat pyfloat
  | JStr pystr
  | JArr "json list"
  | JObj "(pystr \<times> json) list"

text \<open>
  Exceptions as values. Only \<^verbatim>\<open>json.JSONDecodeError\<close> is ever caught selectively;
  every constructor stands for a subclass of \<^verbatim>\<open>Exception\<close>. \<open>AttributeError v a\<close>:
  value \<open>v\<close> has no attribute \<open>a\<close>; \<open>TypeError v\<close>: \<open>v\<close> is the operand of the
  wrong type; \<open>UnboundLocalError x\<close>: local \<open>x\<close> read before assignment;
  \<open>KeyError k\<close>: a dict has no key \<open>k\<close>;
  \<open>LibraryError\<close>: anything raised inside httpx, the network or another library.
\<close>

datatype exn =
    JSONDecodeError pystr
  | AttributeError json pystr
  | TypeError json
  | UnboundLocalError pystr
  | KeyError pystr
  | LibraryError pystr

fun is_JSONDecodeError :: "exn \<Rightarrow> bool" where
  "is_JSONDecodeError (JSONDecodeError m) = True"
| "is_JSONDecodeError e = False"

text \<open>Truth value of an object, as \<^verbatim>\<open>if x:\<close> and \<^verbatim>\<open>x or y\<close> test it.\<close>

fun truthy :: "json \<Rightarrow> bool" where
  "truthy JNull = False"
| "truthy (JBool b) = b"
| "truthy (JInt i) = (i \<noteq> 0)"
| "truthy (JFloat (FVal r)) = (r \<noteq> 0)"
| "truthy (JFloat FNegZero) = False"
| "truthy (JFloat (FInf s)) = True"
| "truthy (JFloat FNaN) = True"
| "truthy (JStr s) = (s \<noteq> [])"
| "truthy (JArr xs) = (xs \<noteq> [])"
| "truthy (JObj kv) = (kv \<noteq> [])"

text \<open>\<^verbatim>\<open>s.startswith(p)\<close> and \<^verbatim>\<open>p in s\<close> on strings.\<close>

definition startswith :: "pystr \<Rightarrow> pystr \<Rightarrow> bool" where
  "startswith s p = (take (length p) s = p)"

fun str_contains :: "pystr \<Rightarrow> pystr \<Rightarrow> bool" where
  "str_contains [] p = (p = [])"
| "str_contains (c # s) p = (startswith (c # s) p \<or> str_contains s p)"

text \<open>\<^verbatim>\<open>d.get(k, default)\<close> on a dict, given by its items.\<close>

definition dict_get :: "(pystr \<times> json) list \<Rightarrow> pystr \<Rightarrow> json \<Rightarrow> json" where
  "dict_get kv k d = (case map_of kv k of Some v \<Rightarrow> v | None \<Rightarrow> d)"

text \<open>\<^verbatim>\<open>x.get(k, default)\<close> on any object: only a dict has \<^verbatim>\<open>get\<close>.\<close>

fun py_get :: "json \<Rightarrow> pystr \<Rightarrow> json \<Rightarrow> exn + json" where
  "py_get (JObj kv) k d = Inr (dict_get kv k d)"
| "py_get v k d = Inl (AttributeError v (py ''get''))"

text \<open>\<^verbatim>\<open>k in x\<close> for a string \<open>k\<close>: key of a dict, element of a list, substring of a string.\<close>

fun py_in :: "pystr \<Rightarrow> json \<Rightarrow> exn + bool" where
  "py_in k (JObj kv) = Inr (map_of kv k \<noteq> None)"
| "py_in k (JArr xs) = Inr (JStr k \<in> set xs)"
| "py_in k (JStr s) = Inr (str_contains s k)"
| "py_in k v = Inl (TypeError v)"

text \<open>\<^verbatim>\<open>x[k]\<close> for a string \<open>k\<close>: a list and a string take integer indices only.\<close>

fun py_getitem :: "json \<Rightarrow> pystr \<Rightarrow> exn + json" where
  "py_getitem (JObj kv) k = (case map_of kv k of Some v \<Rightarrow> Inr v | None \<Rightarrow> Inl (KeyError k))"
| "py_getitem v k = Inl (TypeError v)"

text \<open>
  Keys of a Python dict. Numbers and bools that compare equal are one key; a list or a
  dict is unhashable.
\<close>

datatype pykey = KNone | KNum rat | KInf bool | KNaN | KStr pystr

fun hash_key :: "json \<Rightarrow> exn + pykey" where
  "hash_key JNull = Inr KNone"
| "hash_key (JBool b) = Inr (KNum (if b then 1 else 0))"
| "hash_key (JInt i) = Inr (KNum (of_int i))"
| "hash_key (JFloat (FVal r)) = Inr (KNum r)"
| "hash_key (JFloat FNegZero) = Inr (KNum 0)"
| "hash_key (JFloat (FInf s)) = Inr (KInf s)"
| "hash_key (JFloat FNaN) = Inr KNaN"
| "hash_key (JStr s) = Inr (KStr s)"
| "hash_key (JArr xs) = Inl (TypeError (JArr xs))"
| "hash_key (JObj kv) = Inl (TypeError (JObj kv))"

section \<open>The process and its surroundings\<close>

text \<open>\<^verbatim>\<open>conversation_store\<close>: one record per key.\<close>

record conv_record =
  conversation_id :: json
  updated_at :: nat

type_synonym conversation_store = "pykey \<rightharpoonup> conv_record"

text \<open>One POST to the messages endpoint, as \<^verbatim>\<open>send_feishu_message\<close> builds it.\<close>

record feishu_post =
  bearer :: json
  receive_id_type :: pystr
  receive_id :: pystr
  msg_type :: pystr
  content :: pystr

text \<open>The JSON body of the request to \<^verbatim>\<open>/chat-messages\<close>.\<close>

record dify_request =
  inputs_message :: json
  inputs_session_id :: json
  query :: json
  user :: json
  req_conversation_id :: json

text \<open>
  The streamed answer: \<open>open_error\<close> is what opening the stream or
  \<^verbatim>\<open>raise_for_status\<close> raised, \<open>stream_lines\<close> the lines \<^verbatim>\<open>aiter_lines\<close>
  delivers, \<open>read_error\<close> what it raised after them.
\<close>

record dify_stream =
  open_error :: "exn option"
  stream_lines :: "pystr list"
  read_error :: "exn option"

text \<open>
  Everything outside the program: the two services, the clock, and the library functions
  \<^verbatim>\<open>json.loads\<close>, \<^verbatim>\<open>bytes.decode\<close>, \<^verbatim>\<open>str(e)\<close>, \<^verbatim>\<open>uuid.uuid4\<close> and
  the formatting of a value inside an f-string.
  \<open>token_response\<close> is the outcome of the token POST, \<^verbatim>\<open>raise_for_status\<close> and
  \<^verbatim>\<open>response.json()\<close>; \<open>im_response n p\<close> the same for POST \<open>p\<close> to the messages
  endpoint when \<open>n\<close> POSTs went before it.
\<close>

record world =
  token_response :: "exn + json"
  dify_response :: "dify_request \<Rightarrow> dify_stream"
  im_response :: "nat \<Rightarrow> feishu_post \<Rightarrow> exn + json"
  now :: "nat \<Rightarrow> nat"
  json_loads :: "pystr \<Rightarrow> exn + json"
  decode_utf8 :: "string \<Rightarrow> exn + pystr"
  str_exn :: "exn \<Rightarrow> pystr"
  format_value :: "json \<Rightarrow> pystr"
  uuid4 :: pystr

text \<open>\<^verbatim>\<open>f"{v}"\<close>: a string is inserted as it is.\<close>

fun fmt :: "world \<Rightarrow> json \<Rightarrow> pystr" where
  "fmt W (JStr s) = s"
| "fmt W v = format_value W v"

text \<open>
  What a turn can change: the store, the calls of \<^verbatim>\<open>client.post\<close> to the
  messages endpoint (oldest first), and the number of \<^verbatim>\<open>datetime.now()\<close> calls.
\<close>

record turn_state =
  store :: conversation_store
  posts :: "feishu_post list"
  clock :: nat

section \<open>Credential provider\<close>

definition get_feishu_access_token :: "world \<Rightarrow> exn + json" where
  "get_feishu_access_token W =
     (case token_response W of
        Inl e \<Rightarrow> Inl e
      | Inr token_data \<Rightarrow> py_get token_data (py ''tenant_access_token'') JNull)"

section \<open>AI stream client\<close>

text \<open>The literal \<^verbatim>\<open>"MCP API\<close> followed by two CJK characters, a colon and a space.\<close>

definition mcp_error_prefix :: pystr where
  "mcp_error_prefix = py ''MCP API'' @ [38169, 35823] @ py '': ''"

definition error_event :: "pystr \<Rightarrow> json" where
  "error_event m = JObj [(py ''event'', JStr (py ''error'')), (py ''message'', JStr m)]"

text \<open>
  The loop over \<^verbatim>\<open>response.aiter_lines()\<close>, giving the events yielded. An exception
  other than \<^verbatim>\<open>JSONDecodeError\<close> leaves the loop for the outer handler, which yields
  one error event and ends the generator.
\<close>

fun aiter_events :: "world \<Rightarrow> pystr list \<Rightarrow> exn option \<Rightarrow> json list" where
  "aiter_events W [] rerr =
     (case rerr of None \<Rightarrow> [] | Some e \<Rightarrow> [error_event (str_exn W e)])"
| "aiter_events W (line # ls) rerr =
     (if startswith line (py ''data: '') then
        (case json_loads W (drop 6 line) of
           Inl e \<Rightarrow>
             if is_JSONDecodeError e then aiter_events W ls rerr
             else [error_event (str_exn W e)]
         | Inr event_data \<Rightarrow>
             (case py_in (py ''error'') event_data of
                Inl e \<Rightarrow> [error_event (str_exn W e)]
              | Inr True \<Rightarrow>
                  (case py_getitem event_data (py ''error'') of
                     Inl e \<Rightarrow> [error_event (str_exn W e)]
                   | Inr v \<Rightarrow> error_event (mcp_error_prefix @ fmt W v) # aiter_events W ls rerr)
              | Inr False \<Rightarrow> event_data # aiter_events W ls rerr))
      else aiter_events W ls rerr)"

definition call_dify_api :: "world \<Rightarrow> json \<Rightarrow> json \<Rightarrow> json \<Rightarrow> json list" where
  "call_dify_api W message user_id conv_id =
     (let data = \<lparr>inputs_message = message,
                  inputs_session_id = (if truthy conv_id then conv_id else JStr (uuid4 W)),
                  query = message,
                  user = user_id,
                  req_conversation_id = conv_id\<rparr>;
          response = dify_response W data
      in case open_error response of
           Some e \<Rightarrow> [error_event (str_exn W e)]
         | None \<Rightarrow> aiter_events W (stream_lines response) (read_error response))"

section \<open>Chat delivery client\<close>

text \<open>The \<^verbatim>\<open>receive_id_type\<close> chosen from the prefix of the identifier.\<close>

definition infer_receive_id_type :: "pystr \<Rightarrow> pystr" where
  "infer_receive_id_type r =
     (if startswith r (py ''oc_'') then py ''chat_id''
      else if startswith r (py ''ou_'') then py ''open_id''
      else py ''chat_id'')"

text \<open>
  Calling \<^verbatim>\<open>startswith\<close> on an identifier that is not a string raises before
  any request is made. Otherwise exactly one POST is made, and the call raises what the
  POST, \<^verbatim>\<open>raise_for_status\<close> or \<^verbatim>\<open>response.json()\<close> raised.
\<close>

definition send_feishu_message ::
  "world \<Rightarrow> json \<Rightarrow> json \<Rightarrow> pystr \<Rightarrow> turn_state \<Rightarrow> (exn + json) \<times> turn_state" where
  "send_feishu_message W access_token rid text st =
     (case rid of
        JStr r \<Rightarrow>
          (let p = \<lparr>bearer = access_token, receive_id_type = infer_receive_id_type r,
                    receive_id = r,
                    msg_type = py ''text'', content = text\<rparr>
           in (im_response W (length (posts st)) p, st\<lparr>posts := posts st @ [p]\<rparr>))
      | _ \<Rightarrow> (Inl (AttributeError rid (py ''startswith'')), st))"

section \<open>Turn processor\<close>

text \<open>The three non-ASCII literals of \<^verbatim>\<open>process_ai_response\<close>, as code points.\<close>

definition unknown_error_text :: pystr where
  "unknown_error_text = [26410, 30693, 38169, 35823]"

definition request_error_prefix :: pystr where
  "request_error_prefix =
     [22788, 29702, 24744, 30340, 35831, 27714, 26102, 36935, 21040, 38169, 35823] @ py '': ''"

definition system_error_prefix :: pystr where
  "system_error_prefix = [31995, 32479, 38169, 35823] @ py '': ''"

text \<open>
  The body of the \<^verbatim>\<open>async for\<close> loop for one event: the new value of
  \<^verbatim>\<open>accumulated_response\<close>, or the exception that leaves the loop, and the state.
\<close>

definition handle_event ::
  "world \<Rightarrow> json \<Rightarrow> json \<Rightarrow> json \<Rightarrow> pystr \<Rightarrow> turn_state \<Rightarrow> (exn + pystr) \<times> turn_state" where
  "handle_event W access_token user_id event_data acc st =
     (case py_get event_data (py ''event'') JNull of
        Inl e \<Rightarrow> (Inl e, st)
      | Inr event_type \<Rightarrow>
          if event_type = JStr (py ''message'') then
            (case py_get event_data (py ''answer'') (JStr []) of
               Inl e \<Rightarrow> (Inl e, st)
             | Inr (JStr answer_chunk) \<Rightarrow>
                 (let acc' = acc @ answer_chunk in
                  if length acc' \<ge> 50 then
                    (case send_feishu_message W access_token user_id acc' st of
                       (Inr r, st') \<Rightarrow> (Inr [], st')
                     | (Inl e, st') \<Rightarrow> (Inr acc', st'))
                  else (Inr acc', st))
             | Inr v \<Rightarrow> (Inl (TypeError v), st))
          else if event_type = JStr (py ''message_end'') then
            (let st1 = (if acc \<noteq> [] then snd (send_feishu_message W access_token user_id acc st)
                        else st)
             in case py_get event_data (py ''conversation_id'') JNull of
                  Inl e \<Rightarrow> (Inl e, st1)
                | Inr new_conversation_id \<Rightarrow>
                    if truthy new_conversation_id then
                      (case hash_key user_id of
                         Inl e \<Rightarrow> (Inl e, st1\<lparr>clock := Suc (clock st1)\<rparr>)
                       | Inr k \<Rightarrow>
                           (Inr acc,
                            st1\<lparr>store := (store st1)(k \<mapsto>
                                   \<lparr>conversation_id = new_conversation_id,
                                    updated_at = now W (clock st1)\<rparr>),
                                clock := Suc (clock st1)\<rparr>))
                    else (Inr acc, st1))
          else if event_type = JStr (py ''error'') then
            (case py_get event_data (py ''message'') (JStr unknown_error_text) of
               Inl e \<Rightarrow> (Inl e, st)
             | Inr error_message \<Rightarrow>
                 (Inr acc,
                  snd (send_feishu_message W access_token user_id
                         (request_error_prefix @ fmt W error_message) st)))
          else (Inr acc, st))"

text \<open>The \<^verbatim>\<open>async for\<close> loop over the events of the stream.\<close>

fun run_events ::
  "world \<Rightarrow> json \<Rightarrow> json \<Rightarrow> json list \<Rightarrow> pystr \<Rightarrow> turn_state \<Rightarrow> (exn + pystr) \<times> turn_state" where
  "run_events W access_token user_id [] acc st = (Inr acc, st)"
| "run_events W access_token user_id (ev # evs) acc st =
     (case handle_event W access_token user_id ev acc st of
        (Inl e, st') \<Rightarrow> (Inl e, st')
      | (Inr acc', st') \<Rightarrow> run_events W access_token user_id evs acc' st')"

text \<open>
  The outer \<^verbatim>\<open>try\<close> block: its outcome, the binding of the local
  \<^verbatim>\<open>access_token\<close> when it ends (\<open>None\<close>: never assigned), and the state.
\<close>

definition turn_body ::
  "world \<Rightarrow> json \<Rightarrow> json \<Rightarrow> json \<Rightarrow> turn_state \<Rightarrow> (exn + pystr) \<times> json option \<times> turn_state" where
  "turn_body W message user_id conv_id st =
     (case get_feishu_access_token W of
        Inl e \<Rightarrow> (Inl e, None, st)
      | Inr access_token \<Rightarrow>
          (case run_events W access_token user_id
                  (call_dify_api W message user_id conv_id) [] st of
             (r, st') \<Rightarrow> (r, Some access_token, st')))"

text \<open>
  The \<^verbatim>\<open>try\<close> block inside the outer handler. Reading an unassigned
  \<^verbatim>\<open>access_token\<close> raises before \<^verbatim>\<open>send_feishu_message\<close> is called.
\<close>

definition notify_system_error ::
  "world \<Rightarrow> json option \<Rightarrow> json \<Rightarrow> exn \<Rightarrow> turn_state \<Rightarrow> (exn + json) \<times> turn_state" where
  "notify_system_error W binding user_id e st =
     (case binding of
        None \<Rightarrow> (Inl (UnboundLocalError (py ''access_token'')), st)
      | Some access_token \<Rightarrow>
          send_feishu_message W access_token user_id (system_error_prefix @ str_exn W e) st)"

text \<open>\<open>Inl\<close> in the first component would be an exception reaching the caller.\<close>

definition process_ai_response ::
  "world \<Rightarrow> json \<Rightarrow> json \<Rightarrow> json \<Rightarrow> turn_state \<Rightarrow> (exn + unit) \<times> turn_state" where
  "process_ai_response W message user_id conv_id st =
     (case turn_body W message user_id conv_id st of
        (Inr acc, binding, st') \<Rightarrow> (Inr (), st')
      | (Inl e, binding, st') \<Rightarrow>
          (case notify_system_error W binding user_id e st' of
             (Inr r, st'') \<Rightarrow> (Inr (), st'')
           | (Inl send_error, st'') \<Rightarrow> (Inr (), st'')))"

section \<open>Webhook ingress\<close>

text \<open>
  A response is given by the object handed to \<^verbatim>\<open>json.dumps\<close> for its content; the
  media type is \<^verbatim>\<open>application/json\<close> in every case.
\<close>

definition challenge_echo :: "json \<Rightarrow> json" where
  "challenge_echo c = JObj [(py ''challenge'', c), (py ''code'', JInt 0)]"

definition success_ack :: json where
  "success_ack = JObj [(py ''code'', JInt 0), (py ''msg'', JStr (py ''success''))]"

text \<open>
  What the handler does besides answering: a lookup in the store, and the task it
  creates for \<^verbatim>\<open>process_ai_response(text, receive_id, conversation_id)\<close>, which
  runs after the handler has returned. Token acquisition, the AI call and chat delivery
  happen inside that task only.
\<close>

datatype effect = StoreGet pykey | CreateTask json json json

definition bind_exn :: "exn + 'a \<Rightarrow> ('a \<Rightarrow> exn + 'b) \<Rightarrow> exn + 'b" where
  "bind_exn m f = (case m of Inl e \<Rightarrow> Inl e | Inr v \<Rightarrow> f v)"

text \<open>\<^verbatim>\<open>json.loads(v)\<close> for a value that came out of JSON: only a string is accepted.\<close>

definition loads_value :: "world \<Rightarrow> json \<Rightarrow> exn + json" where
  "loads_value W v = (case v of JStr s \<Rightarrow> json_loads W s | _ \<Rightarrow> Inl (TypeError v))"

text \<open>The branch \<^verbatim>\<open>if "event" in data\<close>: the effects, or the exception raised.\<close>

definition message_event :: "world \<Rightarrow> conversation_store \<Rightarrow> json \<Rightarrow> exn + effect list" where
  "message_event W cs data =
     bind_exn (py_get data (py ''event'') (JObj [])) (\<lambda>event.
     bind_exn (py_get event (py ''message'') (JObj [])) (\<lambda>message.
     bind_exn (py_get message (py ''message_type'') JNull) (\<lambda>message_type.
     if message_type = JStr (py ''text'') then
       bind_exn (py_get message (py ''content'') (JStr (py ''{}''))) (\<lambda>message_content.
       bind_exn (loads_value W message_content) (\<lambda>content_json.
       bind_exn (py_get content_json (py ''text'') (JStr [])) (\<lambda>text.
       bind_exn (py_get event (py ''sender'') (JObj [])) (\<lambda>sender.
       bind_exn (py_get sender (py ''sender_id'') (JObj [])) (\<lambda>sender_id_obj.
       bind_exn (py_get sender_id_obj (py ''open_id'') JNull) (\<lambda>sender_id.
       bind_exn (py_get message (py ''chat_id'') JNull) (\<lambda>chat_id.
       let rid = (if truthy chat_id then chat_id else sender_id) in
       if truthy rid then
         bind_exn (hash_key rid) (\<lambda>k.
           let conv_id = (case cs k of None \<Rightarrow> JNull | Some r \<Rightarrow> conversation_id r)
           in Inr [StoreGet k, CreateTask text rid conv_id])
       else Inr [])))))))
     else Inr [])))"

text \<open>
  The \<^verbatim>\<open>try\<close> block of the handler, from the bytes of the request body (a
  \<open>char\<close> is a byte): the response returned or the exception raised, and the effects.
\<close>

definition webhook_try ::
  "world \<Rightarrow> conversation_store \<Rightarrow> string \<Rightarrow> (exn + json) \<times> effect list" where
  "webhook_try W cs body =
     (case decode_utf8 W body of
        Inl e \<Rightarrow> (Inl e, [])
      | Inr body_str \<Rightarrow>
     (case json_loads W body_str of
        Inl e \<Rightarrow> (Inl e, [])
      | Inr data \<Rightarrow>
     (case py_in (py ''challenge'') data of
        Inl e \<Rightarrow> (Inl e, [])
      | Inr True \<Rightarrow>
          (case py_getitem data (py ''challenge'') of
             Inl e \<Rightarrow> (Inl e, [])
           | Inr c \<Rightarrow> (Inr (challenge_echo c), []))
      | Inr False \<Rightarrow>
          (case py_in (py ''event'') data of
             Inl e \<Rightarrow> (Inl e, [])
           | Inr True \<Rightarrow>
               (case message_event W cs data of
                  Inl e \<Rightarrow> (Inl e, [])
                | Inr effs \<Rightarrow> (Inr success_ack, effs))
           | Inr False \<Rightarrow> (Inr success_ack, [])))))"

text \<open>\<open>Inl\<close> in the first component would be an exception reaching the framework.\<close>

definition feishu_webhook ::
  "world \<Rightarrow> conversation_store \<Rightarrow> string \<Rightarrow> (exn + json) \<times> effect list" where
  "feishu_webhook W cs body =
     (case webhook_try W cs body of
        (Inr response, effs) \<Rightarrow> (Inr response, effs)
      | (Inl e, effs) \<Rightarrow> (Inr success_ack, effs))"

section \<open>Vocabulary of the specification\<close>

text \<open>
  The event kinds of the specification, read off an event with the accessors the turn
  processor itself uses: a Message with its fragment, a MessageEnd with what it carries
  as conversation identifier (\<open>JNull\<close>: nothing).
\<close>

definition is_message :: "json \<Rightarrow> pystr \<Rightarrow> bool" where
  "is_message ev frag =
     (py_get ev (py ''event'') JNull = Inr (JStr (py ''message'')) \<and>
      py_get ev (py ''answer'') (JStr []) = Inr (JStr frag))"

definition is_message_end :: "json \<Rightarrow> json \<Rightarrow> bool" where
  "is_message_end ev cid =
     (py_get ev (py ''event'') JNull = Inr (JStr (py ''message_end'')) \<and>
      py_get ev (py ''conversation_id'') JNull = Inr cid)"

text \<open>An event at which the turn processor writes the store.\<close>

definition writes_store :: "json \<Rightarrow> bool" where
  "writes_store ev =
     (case py_get ev (py ''conversation_id'') JNull of
        Inl e \<Rightarrow> False
      | Inr cid \<Rightarrow> is_message_end ev cid \<and> truthy cid)"

text \<open>The POST that delivers \<open>text\<close> to the string identity \<open>u\<close> with token \<open>tok\<close>.\<close>

definition delivery :: "json \<Rightarrow> pystr \<Rightarrow> pystr \<Rightarrow> feishu_post" where
  "delivery tok u text =
     \<lparr>bearer = tok, receive_id_type = infer_receive_id_type u, receive_id = u,
      msg_type = py ''text'', content = text\<rparr>"

text \<open>The world in which the AI backend answers every request with the stream \<open>s\<close>.\<close>

definition with_stream :: "world \<Rightarrow> dify_stream \<Rightarrow> world" where
  "with_stream W s = W\<lparr>dify_response := (\<lambda>req. s)\<rparr>"

text \<open>The payload has a \<^verbatim>\<open>challenge\<close> field: the body decodes to a dict with that key.\<close>

definition challenge_field :: "world \<Rightarrow> string \<Rightarrow> json option" where
  "challenge_field W body =
     (case decode_utf8 W body of
        Inl e \<Rightarrow> None
      | Inr body_str \<Rightarrow>
          (case json_loads W body_str of
             Inr (JObj kv) \<Rightarrow> map_of kv (py ''challenge'')
           | _ \<Rightarrow> None))"

section \<open>A concrete world for examples\<close>

text \<open>
  A small world on which the program can be run: \<open>example_loads\<close> knows the documents
  of \<open>example_documents\<close> and rejects every other text as malformed,
  \<open>ascii_decode\<close> decodes ASCII bodies, the clock starts at 1000, and the POSTs whose
  positions are listed in \<open>failing\<close> fail.
\<close>

definition example_documents :: "(pystr \<times> json) list" where
  \<open>example_documents =
     [(py ''{"event": "message", "answer": "Hi "}'',
       JObj [(py ''event'', JStr (py ''message'')), (py ''answer'', JStr (py ''Hi ''))]),
      (py ''{"event": "message", "answer": "there, "}'',
       JObj [(py ''event'', JStr (py ''message'')), (py ''answer'', JStr (py ''there, ''))]),
      (py ''{"event": "message", "answer": "how can I help you today with your inquiry"}'',
       JObj [(py ''event'', JStr (py ''message'')),
             (py ''answer'', JStr (py ''how can I help you today with your inquiry''))]),
      (py ''{"event": "message", "answer": "The quickest route from the station takes 12 minutes."}'',
       JObj [(py ''event'', JStr (py ''message'')),
             (py ''answer'', JStr (py ''The quickest route from the station takes 12 minutes.''))]),
      (py ''{"event": "message_end", "conversation_id": "conv-42"}'',
       JObj [(py ''event'', JStr (py ''message_end'')),
             (py ''conversation_id'', JStr (py ''conv-42''))]),
      (py ''{"event": "message_end", "conversation_id": "conv-43"}'',
       JObj [(py ''event'', JStr (py ''message_end'')),
             (py ''conversation_id'', JStr (py ''conv-43''))]),
      (py ''{"challenge":"abc123"}'',
       JObj [(py ''challenge'', JStr (py ''abc123''))]),
      (py ''[]'', JArr [])]\<close>

definition example_loads :: "pystr \<Rightarrow> exn + json" where
  "example_loads s =
     (case map_of example_documents s of
        Some v \<Rightarrow> Inr v
      | None \<Rightarrow> Inl (JSONDecodeError s))"

definition ascii_decode :: "string \<Rightarrow> exn + pystr" where
  "ascii_decode b =
     (if list_all (\<lambda>c. (of_char c :: nat) < 128) b then Inr (py b)
      else Inl (LibraryError (py ''UnicodeDecodeError'')))"

fun example_str_exn :: "exn \<Rightarrow> pystr" where
  "example_str_exn (JSONDecodeError m) = m"
| "example_str_exn (AttributeError v a) = a"
| "example_str_exn (TypeError v) = py ''TypeError''"
| "example_str_exn (UnboundLocalError x) = x"
| "example_str_exn (KeyError k) = k"
| "example_str_exn (LibraryError m) = m"

fun example_im_response :: "nat list \<Rightarrow> nat \<Rightarrow> feishu_post \<Rightarrow> exn + json" where
  "example_im_response failing n p =
     (if n \<in> set failing then Inl (LibraryError (py ''HTTPStatusError''))
      else Inr (JObj [(py ''code'', JInt 0)]))"

fun example_dify_response :: "pystr list \<Rightarrow> dify_request \<Rightarrow> dify_stream" where
  "example_dify_response ls req = \<lparr>open_error = None, stream_lines = ls, read_error = None\<rparr>"

fun example_now :: "nat \<Rightarrow> nat" where
  "example_now n = 1000 + n"

fun example_format :: "json \<Rightarrow> pystr" where
  "example_format v = py ''<value>''"

definition example_world :: "exn + json \<Rightarrow> pystr list \<Rightarrow> nat list \<Rightarrow> world" where
  "example_world tokr ls failing =
     \<lparr>token_response = tokr,
      dify_response = example_dify_response ls,
      im_response = example_im_response failing,
      now = example_now,
      json_loads = example_loads,
      decode_utf8 = ascii_decode,
      str_exn = example_str_exn,
      format_value = example_format,
      uuid4 = py ''00000000-0000-4000-8000-000000000000''\<rparr>"

definition token_ok :: "exn + json" where
  "token_ok = Inr (JObj [(py ''code'', JInt 0), (py ''tenant_access_token'', JStr (py ''t-abc''))])"

definition token_down :: "exn + json" where
  "token_down = Inl (LibraryError (py ''ConnectError''))"

definition empty_state :: turn_state where
  "empty_state = \<lparr>store = Map.empty, posts = [], clock = 0\<rparr>"

text \<open>Events and streams used in the examples.\<close>

definition ev_message :: "pystr \<Rightarrow> json" where
  "ev_message frag = JObj [(py ''event'', JStr (py ''message'')), (py ''answer'', JStr frag)]"

definition ev_message_end :: "pystr \<Rightarrow> json" where
  "ev_message_end cid =
     JObj [(py ''event'', JStr (py ''message_end'')), (py ''conversation_id'', JStr cid)]"

definition hi_lines :: "pystr list" where
  \<open>hi_lines =
     [py ''data: {"event": "message", "answer": "Hi "}'',
      py ''data: {"event": "message", "answer": "there, "}'',
      py ''data: {"event": "message", "answer": "how can I help you today with your inquiry"}'',
      py ''data: {"event": "message_end", "conversation_id": "conv-42"}'']\<close>

definition short_lines :: "pystr list" where
  \<open>short_lines =
     [py ''data: {"event": "message", "answer": "Hi "}'',
      py ''data: {"event": "message", "answer": "there, "}'',
      py ''data: {"event": "message_end", "conversation_id": "conv-42"}'']\<close>

definition retry_lines :: "pystr list" where
  \<open>retry_lines =
     [py ''data: {"event": "message", "answer": "The quickest route from the station takes 12 minutes."}'',
      py ''data: {"event": "message_end", "conversation_id": "conv-42"}'']\<close>

definition two_ends_lines :: "pystr list" where
  \<open>two_ends_lines =
     [py ''data: {"event": "message_end", "conversation_id": "conv-42"}'',
      py ''data: {"event": "message_end", "conversation_id": "conv-43"}'']\<close>

definition noisy_lines :: "pystr list" where
  \<open>noisy_lines =
     [py ''data: {"event": "message", "answer": "Hi "}'',
      py ''data: {oops'',
      py ''data: {"event": "message", "answer": "there, "}'']\<close>

definition list_lines :: "pystr list" where
  \<open>list_lines = [py ''data: []'']\<close>

section \<open>Basic facts\<close>

lemma py_eq_iff [simp]: "py a = py b \<longleftrightarrow> a = b"
  unfolding py_def by (simp add: inj_of_char)

lemma length_py [simp]: "length (py s) = length s"
  by (simp add: py_def)

lemma py_append: "py a @ py b = py (a @ b)"
  by (simp add: py_def)

lemma py_Nil_iff [simp]: "py s = [] \<longleftrightarrow> s = []"
  by (simp add: py_def)

lemma take_py [simp]: "take n (py s) = py (take n s)"
  by (simp add: py_def take_map)

lemma drop_py [simp]: "drop n (py s) = py (drop n s)"
  by (simp add: py_def drop_map)

lemma send_feishu_message_str:
  "send_feishu_message W tok (JStr u) text st =
     (im_response W (length (posts st)) (delivery tok u text),
      st\<lparr>posts := posts st @ [delivery tok u text]\<rparr>)"
  by (simp add: send_feishu_message_def delivery_def Let_def)

lemma send_feishu_message_storeD:
  "send_feishu_message W tok uid text st = (r, st') \<Longrightarrow> store st' = store st"
  by (cases uid) (auto simp add: send_feishu_message_def Let_def)

lemma send_feishu_message_store [simp]:
  "store (snd (send_feishu_message W tok uid text st)) = store st"
  by (cases uid) (simp_all add: send_feishu_message_def Let_def)

lemma send_feishu_message_clock [simp]:
  "clock (snd (send_feishu_message W tok uid text st)) = clock st"
  by (cases uid) (simp_all add: send_feishu_message_def Let_def)

lemma handle_event_message:
  assumes "is_message ev frag"
  shows "handle_event W tok uid ev acc st =
     (if 50 \<le> length (acc @ frag) then
        (case send_feishu_message W tok uid (acc @ frag) st of
           (Inr r, st') \<Rightarrow> (Inr [], st')
         | (Inl e, st') \<Rightarrow> (Inr (acc @ frag), st'))
      else (Inr (acc @ frag), st))"
  using assms by (simp add: handle_event_def is_message_def Let_def)

lemma handle_event_message_end:
  assumes "is_message_end ev cid"
  shows "handle_event W tok uid ev acc st =
     (let st1 = (if acc \<noteq> [] then snd (send_feishu_message W tok uid acc st) else st)
      in if truthy cid then
           (case hash_key uid of
              Inl e \<Rightarrow> (Inl e, st1\<lparr>clock := Suc (clock st1)\<rparr>)
            | Inr k \<Rightarrow>
                (Inr acc,
                 st1\<lparr>store := (store st1)(k \<mapsto>
                        \<lparr>conversation_id = cid, updated_at = now W (clock st1)\<rparr>),
                     clock := Suc (clock st1)\<rparr>))
         else (Inr acc, st1))"
  using assms by (simp add: handle_event_def is_message_end_def Let_def)

lemma handle_event_store:
  assumes "\<not> writes_store ev"
  shows "store (snd (handle_event W tok uid ev acc st)) = store st"
proof (cases ev)
  case (JObj kv)
  then show ?thesis
    using assms
    by (auto simp add: handle_event_def writes_store_def is_message_end_def Let_def
        split: sum.splits json.splits prod.splits if_splits
        dest: send_feishu_message_storeD)
qed (simp_all add: handle_event_def)

lemma run_events_append:
  "run_events W tok uid (xs @ ys) acc st =
     (case run_events W tok uid xs acc st of
        (Inl e, st') \<Rightarrow> (Inl e, st')
      | (Inr acc', st') \<Rightarrow> run_events W tok uid ys acc' st')"
  by (induction xs arbitrary: acc st) (auto split: prod.splits sum.splits)

lemma run_events_store:
  assumes "list_all (\<lambda>ev. \<not> writes_store ev) evs"
  shows "store (snd (run_events W tok uid evs acc st)) = store st"
  using assms
proof (induction evs arbitrary: acc st)
  case Nil
  then show ?case by simp
next
  case (Cons ev evs)
  obtain r st' where h: "handle_event W tok uid ev acc st = (r, st')"
    by (cases "handle_event W tok uid ev acc st")
  have s: "store st' = store st"
    using handle_event_store[of ev W tok uid acc st] Cons.prems h by simp
  show ?case
  proof (cases r)
    case (Inl e)
    then show ?thesis using h s by simp
  next
    case (Inr acc')
    then show ?thesis using h s Cons by simp
  qed
qed

lemma run_events_below_threshold:
  assumes "list_all2 is_message evs frags" and "length (acc @ concat frags) < 50"
  shows "run_events W tok uid evs acc st = (Inr (acc @ concat frags), st)"
  using assms
proof (induction evs frags arbitrary: acc rule: list_all2_induct)
  case Nil
  then show ?case by simp
next
  case (Cons ev evs frag frags)
  have small: "\<not> 50 \<le> length (acc @ frag)"
    using Cons.prems by simp
  have step: "handle_event W tok uid ev acc st = (Inr (acc @ frag), st)"
    using handle_event_message[OF Cons.hyps(1)] small by simp
  have "length ((acc @ frag) @ concat frags) < 50"
    using Cons.prems by simp
  then have "run_events W tok uid evs (acc @ frag) st = (Inr ((acc @ frag) @ concat frags), st)"
    by (rule Cons.IH)
  then show ?case using step by simp
qed

lemma process_ai_response_run:
  assumes "get_feishu_access_token W = Inr tok"
    and "run_events W tok uid (call_dify_api W message uid conv_id) [] st = (Inr acc, st')"
  shows "process_ai_response W message uid conv_id st = (Inr (), st')"
  using assms by (simp add: process_ai_response_def turn_body_def)

lemma handle_event_message_end_str:
  assumes "is_message_end ev cid"
  shows "handle_event W tok (JStr u) ev acc st =
     (Inr acc,
      st\<lparr>posts := posts st @ (if acc = [] then [] else [delivery tok u acc]),
         store := (if truthy cid
                   then (store st)(KStr u \<mapsto>
                          \<lparr>conversation_id = cid, updated_at = now W (clock st)\<rparr>)
                   else store st),
         clock := (if truthy cid then Suc (clock st) else clock st)\<rparr>)"
  by (simp add: handle_event_message_end[OF assms] send_feishu_message_str Let_def)

lemma process_ai_response_store:
  "store (snd (process_ai_response W message uid conv_id st)) =
   store (snd (snd (turn_body W message uid conv_id st)))"
proof -
  obtain r b st' where tb: "turn_body W message uid conv_id st = (r, b, st')"
    by (cases "turn_body W message uid conv_id st")
  show ?thesis
  proof (cases r)
    case (Inr acc)
    then show ?thesis by (simp add: process_ai_response_def tb)
  next
    case (Inl e)
    have "store (snd (notify_system_error W b uid e st')) = store st'"
      by (cases b) (simp_all add: notify_system_error_def)
    then show ?thesis
      by (cases "notify_system_error W b uid e st'")
        (auto simp add: process_ai_response_def tb Inl split: sum.splits)
  qed
qed

lemma turn_body_token:
  assumes "get_feishu_access_token W = Inr tok"
  shows "snd (snd (turn_body W message uid conv_id st)) =
         snd (run_events W tok uid (call_dify_api W message uid conv_id) [] st)"
  using assms by (simp add: turn_body_def split: prod.splits)

subsection \<open>Changing the stream only\<close>

lemma with_stream_sel [simp]:
  "json_loads (with_stream W s) = json_loads W"
  "str_exn (with_stream W s) = str_exn W"
  "format_value (with_stream W s) = format_value W"
  "im_response (with_stream W s) = im_response W"
  "now (with_stream W s) = now W"
  "token_response (with_stream W s) = token_response W"
  "dify_response (with_stream W s) req = s"
  by (simp_all add: with_stream_def)

lemma fmt_with_stream [simp]: "fmt (with_stream W s) v = fmt W v"
  by (cases v) simp_all

lemma aiter_events_with_stream [simp]:
  "aiter_events (with_stream W s) ls rerr = aiter_events W ls rerr"
  by (induction ls) (simp_all split: sum.splits bool.splits option.splits)

lemma send_feishu_message_with_stream [simp]:
  "send_feishu_message (with_stream W s) = send_feishu_message W"
  by (intro ext) (simp add: send_feishu_message_def cong: json.case_cong)

lemma handle_event_with_stream [simp]:
  "handle_event (with_stream W s) = handle_event W"
  by (intro ext)
    (simp add: handle_event_def cong: json.case_cong sum.case_cong prod.case_cong if_cong)

lemma run_events_with_stream [simp]:
  "run_events (with_stream W s) tok uid evs acc st = run_events W tok uid evs acc st"
  by (induction evs arbitrary: acc st) (simp_all split: prod.splits sum.splits)

lemma get_feishu_access_token_with_stream [simp]:
  "get_feishu_access_token (with_stream W s) = get_feishu_access_token W"
  by (simp add: get_feishu_access_token_def)

lemma notify_system_error_with_stream [simp]:
  "notify_system_error (with_stream W s) = notify_system_error W"
  by (intro ext) (simp add: notify_system_error_def cong: option.case_cong)

lemma call_dify_api_with_stream:
  "call_dify_api (with_stream W s) message uid conv_id =
     (case open_error s of
        Some e \<Rightarrow> [error_event (str_exn W e)]
      | None \<Rightarrow> aiter_events W (stream_lines s) (read_error s))"
  by (simp add: call_dify_api_def Let_def cong: option.case_cong)

lemma process_ai_response_same_events:
  assumes "call_dify_api (with_stream W s1) message uid conv_id =
           call_dify_api (with_stream W s2) message uid conv_id"
  shows "process_ai_response (with_stream W s1) message uid conv_id st =
         process_ai_response (with_stream W s2) message uid conv_id st"
proof -
  have "turn_body (with_stream W s1) message uid conv_id st =
        turn_body (with_stream W s2) message uid conv_id st"
    by (simp add: turn_body_def assms cong: sum.case_cong)
  then show ?thesis
    by (simp add: process_ai_response_def split: prod.splits sum.splits)
qed

subsection \<open>Running the example world\<close>

lemma example_loads_simps:
  \<open>example_loads (py ''{"event": "message", "answer": "Hi "}'') =
     Inr (JObj [(py ''event'', JStr (py ''message'')), (py ''answer'', JStr (py ''Hi ''))])\<close>
  \<open>example_loads (py ''{"event": "message", "answer": "there, "}'') =
     Inr (JObj [(py ''event'', JStr (py ''message'')), (py ''answer'', JStr (py ''there, ''))])\<close>
  \<open>example_loads (py ''{"event": "message", "answer": "how can I help you today with your inquiry"}'') =
     Inr (JObj [(py ''event'', JStr (py ''message'')),
             (py ''answer'', JStr (py ''how can I help you today with your inquiry''))])\<close>
  \<open>example_loads (py ''{"event": "message", "answer": "The quickest route from the station takes 12 minutes."}'') =
     Inr (JObj [(py ''event'', JStr (py ''message'')),
             (py ''answer'', JStr (py ''The quickest route from the station takes 12 minutes.''))])\<close>
  \<open>example_loads (py ''{"event": "message_end", "conversation_id": "conv-42"}'') =
     Inr (JObj [(py ''event'', JStr (py ''message_end'')),
             (py ''conversation_id'', JStr (py ''conv-42''))])\<close>
  \<open>example_loads (py ''{"event": "message_end", "conversation_id": "conv-43"}'') =
     Inr (JObj [(py ''event'', JStr (py ''message_end'')),
             (py ''conversation_id'', JStr (py ''conv-43''))])\<close>
  \<open>example_loads (py ''{"challenge":"abc123"}'') = Inr (JObj [(py ''challenge'', JStr (py ''abc123''))])\<close>
  \<open>example_loads (py ''[]'') = Inr (JArr [])\<close>
  \<open>example_loads (py ''{oops'') = Inl (JSONDecodeError (py ''{oops''))\<close>
  by (simp_all add: example_loads_def example_documents_def)

lemma call_dify_api_example:
  "call_dify_api (example_world tokr ls failing) message uid conv_id =
     aiter_events (example_world tokr ls failing) ls None"
  by (simp add: call_dify_api_def example_world_def Let_def)

lemma example_world_sel [simp]:
  "json_loads (example_world tokr ls failing) = example_loads"
  "str_exn (example_world tokr ls failing) = example_str_exn"
  "im_response (example_world tokr ls failing) = example_im_response failing"
  "now (example_world tokr ls failing) = example_now"
  "decode_utf8 (example_world tokr ls failing) = ascii_decode"
  "token_response (example_world tokr ls failing) = tokr"
  by (simp_all add: example_world_def)

lemma get_token_example:
  "get_feishu_access_token (example_world token_ok ls failing) = Inr (JStr (py ''t-abc''))"
  by (simp add: get_feishu_access_token_def token_ok_def dict_get_def)

lemma hi_events:
  "call_dify_api (example_world token_ok hi_lines []) message uid conv_id =
     [JObj [(py ''event'', JStr (py ''message'')), (py ''answer'', JStr (py ''Hi ''))],
      JObj [(py ''event'', JStr (py ''message'')), (py ''answer'', JStr (py ''there, ''))],
      JObj [(py ''event'', JStr (py ''message'')),
            (py ''answer'', JStr (py ''how can I help you today with your inquiry''))],
      JObj [(py ''event'', JStr (py ''message_end'')),
            (py ''conversation_id'', JStr (py ''conv-42''))]]"
  by (simp add: call_dify_api_example hi_lines_def startswith_def example_loads_simps)

lemma is_message_ev [simp]: "is_message (ev_message frag) frag"
  by (simp add: is_message_def ev_message_def dict_get_def)

lemma is_message_end_ev [simp]: "is_message_end (ev_message_end cid) (JStr cid)"
  by (simp add: is_message_end_def ev_message_end_def dict_get_def)

lemma short_events:
  "call_dify_api (example_world token_ok short_lines []) message uid conv_id =
     [ev_message (py ''Hi ''), ev_message (py ''there, '')] @ [ev_message_end (py ''conv-42'')]"
  by (simp add: call_dify_api_example short_lines_def startswith_def example_loads_simps
      ev_message_def ev_message_end_def)

lemma retry_events:
  "call_dify_api (example_world token_ok retry_lines [0]) message uid conv_id =
     [ev_message (py ''The quickest route from the station takes 12 minutes.''),
      ev_message_end (py ''conv-42'')]"
  by (simp add: call_dify_api_example retry_lines_def startswith_def example_loads_simps
      ev_message_def ev_message_end_def)

section \<open>Flushing at the threshold\<close>

text \<open>
  Claim C1. Token acquired, identity a string, every delivery succeeding, and the stream
  yielding exactly the Message fragments \<^verbatim>\<open>"Hi "\<close>, \<^verbatim>\<open>"there, "\<close>,
  \<^verbatim>\<open>"how can I help you today with your inquiry"\<close> and then a MessageEnd: after
  the three Message events, before the MessageEnd is handled, exactly one delivery has
  been made, its text is the three fragments concatenated in order, and the accumulator
  is empty; after the whole turn the deliveries are still that one.
\<close>

theorem threshold_flush_before_message_end:
  assumes deliveries: "\<forall>n p. \<not> isl (im_response W n p)"
    and token: "get_feishu_access_token W = Inr tok"
    and stream: "call_dify_api W message (JStr u) conv_id = [e1, e2, e3, e4]"
    and e1: "is_message e1 (py ''Hi '')"
    and e2: "is_message e2 (py ''there, '')"
    and e3: "is_message e3 (py ''how can I help you today with your inquiry'')"
    and e4: "is_message_end e4 cid"
  shows "run_events W tok (JStr u) [e1, e2, e3] [] st =
           (Inr [], st\<lparr>posts := posts st @
              [delivery tok u (py ''Hi there, how can I help you today with your inquiry'')]\<rparr>) \<and>
         posts (snd (process_ai_response W message (JStr u) conv_id st)) =
           posts st @ [delivery tok u (py ''Hi there, how can I help you today with your inquiry'')]"
proof -
  let ?text = "py ''Hi there, how can I help you today with your inquiry''"
  let ?st3 = "st\<lparr>posts := posts st @ [delivery tok u ?text]\<rparr>"
  have s1: "handle_event W tok (JStr u) e1 [] st = (Inr (py ''Hi ''), st)"
    by (simp add: handle_event_message[OF e1])
  have s2: "handle_event W tok (JStr u) e2 (py ''Hi '') st = (Inr (py ''Hi there, ''), st)"
    by (simp add: handle_event_message[OF e2] py_append)
  have "\<not> isl (im_response W (length (posts st)) (delivery tok u ?text))"
    using deliveries by blast
  then obtain r where ok: "im_response W (length (posts st)) (delivery tok u ?text) = Inr r"
    by (cases "im_response W (length (posts st)) (delivery tok u ?text)") auto
  have s3: "handle_event W tok (JStr u) e3 (py ''Hi there, '') st = (Inr [], ?st3)"
    by (simp add: handle_event_message[OF e3] py_append send_feishu_message_str ok)
  have first3: "run_events W tok (JStr u) [e1, e2, e3] [] st = (Inr [], ?st3)"
    by (simp add: s1 s2 s3)
  have s4: "posts (snd (handle_event W tok (JStr u) e4 [] ?st3)) = posts ?st3"
    by (simp add: handle_event_message_end_str[OF e4])
  obtain st4 where r4: "handle_event W tok (JStr u) e4 [] ?st3 = (Inr [], st4)"
    by (simp add: handle_event_message_end_str[OF e4])
  have p4: "posts st4 = posts ?st3"
    using s4 r4 by simp
  have "run_events W tok (JStr u) (call_dify_api W message (JStr u) conv_id) [] st = (Inr [], st4)"
    by (simp add: stream s1 s2 s3 r4)
  from process_ai_response_run[OF token this] p4 first3 show ?thesis by simp
qed

theorem threshold_flush_before_message_end_witness:
  "posts (snd (process_ai_response (example_world token_ok hi_lines []) (JStr (py ''hello''))
      (JStr (py ''ou_123'')) JNull empty_state)) =
     [delivery (JStr (py ''t-abc'')) (py ''ou_123'')
        (py ''Hi there, how can I help you today with your inquiry'')]"
proof -
  have d: "\<forall>n p. \<not> isl (im_response (example_world token_ok hi_lines []) n p)"
    by simp
  have "posts (snd (process_ai_response (example_world token_ok hi_lines [])
      (JStr (py ''hello'')) (JStr (py ''ou_123'')) JNull empty_state)) =
     posts empty_state @ [delivery (JStr (py ''t-abc'')) (py ''ou_123'')
        (py ''Hi there, how can I help you today with your inquiry'')]"
    using threshold_flush_before_message_end[where st = empty_state, OF d get_token_example hi_events]
    by (simp add: is_message_def is_message_end_def dict_get_def)
  then show ?thesis by (simp add: empty_state_def)
qed

text \<open>
  Claim C2, as amended. A Message event that brings the accumulator to 50 characters or
  more makes one delivery call with the accumulated text. The accumulator is empty
  afterwards exactly when that call succeeded; when it failed the accumulated text is
  kept for the next event.
\<close>

theorem threshold_flush_resets_on_success:
  assumes "is_message ev frag" and "50 \<le> length (acc @ frag)"
  shows "handle_event W tok (JStr u) ev acc st =
     (Inr (if isl (im_response W (length (posts st)) (delivery tok u (acc @ frag)))
           then acc @ frag else []),
      st\<lparr>posts := posts st @ [delivery tok u (acc @ frag)]\<rparr>)"
  using assms handle_event_message[OF assms(1), of W tok "JStr u" acc st]
  by (simp add: send_feishu_message_str split: sum.splits)

theorem threshold_flush_resets_on_success_witness:
  "handle_event (example_world token_ok [] []) (JStr (py ''t-abc'')) (JStr (py ''ou_123''))
     (ev_message (py ''The quickest route from the station takes 12 minutes.''))
     [] empty_state =
   (Inr [],
    empty_state\<lparr>posts := [delivery (JStr (py ''t-abc'')) (py ''ou_123'')
       (py ''The quickest route from the station takes 12 minutes.'')]\<rparr>)"
proof -
  have full: "50 \<le> length ([] @ py ''The quickest route from the station takes 12 minutes.'')"
    by simp
  show ?thesis
    using threshold_flush_resets_on_success[OF is_message_ev full,
        of "example_world token_ok [] []" "JStr (py ''t-abc'')" "py ''ou_123''" empty_state]
    by (simp add: empty_state_def)
qed

text \<open>
  The claim without the amendment fails: when the first POST fails, a Message event with a
  fragment of 53 characters leaves those 53 characters in the accumulator.
\<close>

theorem failed_flush_keeps_accumulator:
  "fst (handle_event (example_world token_ok [] [0]) (JStr (py ''t-abc'')) (JStr (py ''ou_123''))
     (ev_message (py ''The quickest route from the station takes 12 minutes.''))
     [] empty_state) =
   Inr (py ''The quickest route from the station takes 12 minutes.'') \<and>
   fst (handle_event (example_world token_ok [] [0]) (JStr (py ''t-abc'')) (JStr (py ''ou_123''))
     (ev_message (py ''The quickest route from the station takes 12 minutes.''))
     [] empty_state) \<noteq> Inr []"
  by (simp add: handle_event_message[OF is_message_ev] send_feishu_message_str empty_state_def)

section \<open>Delivery failures do not end the turn\<close>

text \<open>
  Claim C3. When the delivery of a threshold flush fails, the loop goes on with the rest
  of the stream, whatever it is, from the state in which the text is still accumulated.
  When the events up to a later MessageEnd are handled, that MessageEnd delivers what is
  then accumulated (if anything) and writes the store when it carries a conversation
  identifier, and the loop goes on after it.
\<close>

theorem failed_flush_does_not_stop_turn:
  assumes msg: "is_message ev frag"
    and full: "50 \<le> length (acc @ frag)"
    and failure: "im_response W (length (posts st)) (delivery tok u (acc @ frag)) = Inl e"
    and between: "run_events W tok (JStr u) mid (acc @ frag)
                    (st\<lparr>posts := posts st @ [delivery tok u (acc @ frag)]\<rparr>) = (Inr acc2, st2)"
    and ending: "is_message_end end_ev cid"
  shows "run_events W tok (JStr u) (ev # rest) acc st =
           run_events W tok (JStr u) rest (acc @ frag)
             (st\<lparr>posts := posts st @ [delivery tok u (acc @ frag)]\<rparr>) \<and>
         run_events W tok (JStr u) (ev # mid @ end_ev # rest) acc st =
           run_events W tok (JStr u) rest acc2
             (st2\<lparr>posts := posts st2 @ (if acc2 = [] then [] else [delivery tok u acc2]),
                 store := (if truthy cid
                           then (store st2)(KStr u \<mapsto>
                                  \<lparr>conversation_id = cid, updated_at = now W (clock st2)\<rparr>)
                           else store st2),
                 clock := (if truthy cid then Suc (clock st2) else clock st2)\<rparr>)"
proof -
  have step: "handle_event W tok (JStr u) ev acc st =
      (Inr (acc @ frag), st\<lparr>posts := posts st @ [delivery tok u (acc @ frag)]\<rparr>)"
    using full failure by (simp add: handle_event_message[OF msg] send_feishu_message_str)
  have one: "\<And>evs. run_events W tok (JStr u) (ev # evs) acc st =
           run_events W tok (JStr u) evs (acc @ frag)
             (st\<lparr>posts := posts st @ [delivery tok u (acc @ frag)]\<rparr>)"
    by (simp add: step)
  have two: "run_events W tok (JStr u) (mid @ end_ev # rest) (acc @ frag)
             (st\<lparr>posts := posts st @ [delivery tok u (acc @ frag)]\<rparr>) =
        run_events W tok (JStr u) (end_ev # rest) acc2 st2"
    by (simp add: run_events_append between)
  show ?thesis
    by (simp only: one two) (simp add: handle_event_message_end_str[OF ending])
qed

theorem failed_flush_does_not_stop_turn_witness:
  "run_events (example_world token_ok retry_lines [0]) (JStr (py ''t-abc''))
      (JStr (py ''ou_123''))
      (call_dify_api (example_world token_ok retry_lines [0]) (JStr (py ''hello''))
         (JStr (py ''ou_123'')) JNull)
      [] empty_state =
   (Inr (py ''The quickest route from the station takes 12 minutes.''),
    \<lparr>store = [KStr (py ''ou_123'') \<mapsto>
               \<lparr>conversation_id = JStr (py ''conv-42''), updated_at = 1000\<rparr>],
     posts = [delivery (JStr (py ''t-abc'')) (py ''ou_123'')
                (py ''The quickest route from the station takes 12 minutes.''),
              delivery (JStr (py ''t-abc'')) (py ''ou_123'')
                (py ''The quickest route from the station takes 12 minutes.'')],
     clock = 1\<rparr>)"
proof -
  let ?W = "example_world token_ok retry_lines [0]"
  let ?text = "py ''The quickest route from the station takes 12 minutes.''"
  let ?d = "delivery (JStr (py ''t-abc'')) (py ''ou_123'') ?text"
  have full: "50 \<le> length ([] @ ?text)"
    by simp
  have failure: "im_response ?W (length (posts empty_state)) 
      (delivery (JStr (py ''t-abc'')) (py ''ou_123'') ([] @ ?text)) =
      Inl (LibraryError (py ''HTTPStatusError''))"
    by (simp add: empty_state_def)
  have between: "run_events ?W (JStr (py ''t-abc'')) (JStr (py ''ou_123'')) [] ([] @ ?text)
      (empty_state\<lparr>posts := posts empty_state @
         [delivery (JStr (py ''t-abc'')) (py ''ou_123'') ([] @ ?text)]\<rparr>) =
      (Inr ?text, empty_state\<lparr>posts := [?d]\<rparr>)"
    by (simp add: empty_state_def)
  show ?thesis
    using failed_flush_does_not_stop_turn[OF is_message_ev full failure between
        is_message_end_ev, of "[]" "py ''conv-42''"]
    by (simp add: retry_events empty_state_def)
qed

section \<open>The conversation store\<close>

text \<open>
  Claim C4, as amended. A MessageEnd carrying a non-empty conversation identifier, when it
  is handled, replaces the store entry of the turn's identity by that identifier and the
  time of the write. After a turn that handled the events before such a MessageEnd
  without an exception and met no store-writing MessageEnd after it, the store maps the
  identity to that record.
\<close>

theorem last_message_end_sets_conversation:
  assumes token: "get_feishu_access_token W = Inr tok"
    and stream: "call_dify_api W message (JStr u) conv_id = pre @ end_ev # post"
    and before: "run_events W tok (JStr u) pre [] st = (Inr acc, st1)"
    and ending: "is_message_end end_ev cid"
    and carries: "truthy cid"
    and after: "list_all (\<lambda>ev. \<not> writes_store ev) post"
  shows "store (snd (handle_event W tok (JStr u) end_ev acc st1)) =
           (store st1)(KStr u \<mapsto> \<lparr>conversation_id = cid, updated_at = now W (clock st1)\<rparr>) \<and>
         store (snd (process_ai_response W message (JStr u) conv_id st)) (KStr u) =
           Some \<lparr>conversation_id = cid, updated_at = now W (clock st1)\<rparr>"
proof -
  obtain st2 where step: "handle_event W tok (JStr u) end_ev acc st1 = (Inr acc, st2)"
    and written: "store st2 =
      (store st1)(KStr u \<mapsto> \<lparr>conversation_id = cid, updated_at = now W (clock st1)\<rparr>)"
    using carries by (simp add: handle_event_message_end_str[OF ending])
  have "run_events W tok (JStr u) (pre @ end_ev # post) [] st =
          run_events W tok (JStr u) post acc st2"
    by (simp add: run_events_append before step)
  then have "store (snd (run_events W tok (JStr u) (call_dify_api W message (JStr u) conv_id) [] st)) =
          store st2"
    using run_events_store[OF after, of W tok "JStr u" acc st2] by (simp add: stream)
  then have "store (snd (process_ai_response W message (JStr u) conv_id st)) = store st2"
    by (simp add: process_ai_response_store turn_body_token[OF token])
  then show ?thesis using written step by simp
qed

theorem last_message_end_sets_conversation_witness:
  "store (snd (process_ai_response (example_world token_ok hi_lines [])
      (JStr (py ''hello'')) (JStr (py ''ou_123'')) JNull empty_state)) (KStr (py ''ou_123'')) =
     Some \<lparr>conversation_id = JStr (py ''conv-42''), updated_at = 1000\<rparr>"
proof -
  let ?W = "example_world token_ok hi_lines []"
  let ?text = "py ''Hi there, how can I help you today with your inquiry''"
  have stream: "call_dify_api ?W (JStr (py ''hello'')) (JStr (py ''ou_123'')) JNull =
      [ev_message (py ''Hi ''), ev_message (py ''there, ''),
       ev_message (py ''how can I help you today with your inquiry'')]
      @ ev_message_end (py ''conv-42'') # []"
    by (simp add: hi_events ev_message_def ev_message_end_def)
  have before: "run_events ?W (JStr (py ''t-abc'')) (JStr (py ''ou_123''))
      [ev_message (py ''Hi ''), ev_message (py ''there, ''),
       ev_message (py ''how can I help you today with your inquiry'')] [] empty_state =
      (Inr [], empty_state\<lparr>posts := [delivery (JStr (py ''t-abc'')) (py ''ou_123'') ?text]\<rparr>)"
    by (simp add: handle_event_message[OF is_message_ev] send_feishu_message_str py_append
        empty_state_def)
  have carries: "truthy (JStr (py ''conv-42''))"
    by simp
  have after: "list_all (\<lambda>ev. \<not> writes_store ev) []"
    by simp
  show ?thesis
    using last_message_end_sets_conversation[OF get_token_example stream before
        is_message_end_ev carries after]
    by (simp add: empty_state_def)
qed

text \<open>
  The claim without the amendment fails: a stream with a MessageEnd carrying
  \<^verbatim>\<open>conv-42\<close> followed by one carrying \<^verbatim>\<open>conv-43\<close> leaves
  \<^verbatim>\<open>conv-43\<close> in the store.
\<close>

theorem later_message_end_overwrites:
  "call_dify_api (example_world token_ok two_ends_lines []) (JStr (py ''hello''))
      (JStr (py ''ou_123'')) JNull =
     [ev_message_end (py ''conv-42''), ev_message_end (py ''conv-43'')] \<and>
   store (snd (process_ai_response (example_world token_ok two_ends_lines [])
      (JStr (py ''hello'')) (JStr (py ''ou_123'')) JNull empty_state)) (KStr (py ''ou_123'')) =
     Some \<lparr>conversation_id = JStr (py ''conv-43''), updated_at = 1001\<rparr> \<and>
   map_option conversation_id
     (store (snd (process_ai_response (example_world token_ok two_ends_lines [])
        (JStr (py ''hello'')) (JStr (py ''ou_123'')) JNull empty_state)) (KStr (py ''ou_123''))) \<noteq>
     Some (JStr (py ''conv-42''))"
proof -
  let ?W = "example_world token_ok two_ends_lines []"
  have evs: "call_dify_api ?W (JStr (py ''hello'')) (JStr (py ''ou_123'')) JNull =
     [ev_message_end (py ''conv-42''), ev_message_end (py ''conv-43'')]"
    by (simp add: call_dify_api_example two_ends_lines_def startswith_def example_loads_simps
        ev_message_end_def)
  have "store (snd (run_events ?W (JStr (py ''t-abc'')) (JStr (py ''ou_123''))
          [ev_message_end (py ''conv-42''), ev_message_end (py ''conv-43'')] [] empty_state))
          (KStr (py ''ou_123'')) =
        Some \<lparr>conversation_id = JStr (py ''conv-43''), updated_at = 1001\<rparr>"
    by (simp add: handle_event_message_end_str[OF is_message_end_ev] empty_state_def)
  then show ?thesis
    by (simp add: evs process_ai_response_store turn_body_token[OF get_token_example])
qed

section \<open>Webhook ingress\<close>

text \<open>
  Claim C5. For every body, every store and every behaviour of the decoder and the JSON
  parser, the handler returns a response and never raises: the challenge echo when the
  payload has a \<^verbatim>\<open>challenge\<close> field, the success acknowledgement in every other
  case, whatever went wrong on the way.
\<close>

theorem webhook_always_acknowledges:
  "fst (feishu_webhook W cs body) =
     Inr (case challenge_field W body of Some c \<Rightarrow> challenge_echo c | None \<Rightarrow> success_ack)"
proof (cases "decode_utf8 W body")
  case (Inl e)
  then show ?thesis
    by (simp add: feishu_webhook_def webhook_try_def challenge_field_def)
next
  case (Inr body_str)
  note dec = this
  show ?thesis
  proof (cases "json_loads W body_str")
    case (Inl e)
    then show ?thesis
      by (simp add: feishu_webhook_def webhook_try_def challenge_field_def dec)
  next
    case (Inr data)
    then show ?thesis
      by (cases data)
        (auto simp add: feishu_webhook_def webhook_try_def challenge_field_def dec
          split: sum.splits bool.splits option.splits)
  qed
qed

theorem webhook_always_acknowledges_witness:
  "fst (feishu_webhook (example_world token_ok [] []) Map.empty ''not json'') =
     Inr (JObj [(py ''code'', JInt 0), (py ''msg'', JStr (py ''success''))])"
proof -
  have "challenge_field (example_world token_ok [] []) ''not json'' = None"
    by (simp add: challenge_field_def ascii_decode_def example_loads_def example_documents_def)
  then show ?thesis
    using webhook_always_acknowledges[of "example_world token_ok [] []" Map.empty "''not json''"]
    by (simp add: success_ack_def)
qed

section \<open>Malformed stream lines\<close>

text \<open>
  Claim C6. A line that starts with \<^verbatim>\<open>data: \<close> and whose payload
  \<^verbatim>\<open>json.loads\<close> rejects yields no event, whatever the lines before and after
  it: the events of the stream are those of the stream without that line, and a turn on
  the stream with the line returns and leaves the state exactly as a turn on the stream
  without it.
\<close>

theorem malformed_line_is_skipped:
  assumes prefix: "startswith line (py ''data: '')"
    and malformed: "json_loads W (drop 6 line) = Inl (JSONDecodeError m)"
  shows "aiter_events W (before @ line # after) rerr = aiter_events W (before @ after) rerr \<and>
         process_ai_response
           (with_stream W \<lparr>open_error = None, stream_lines = before @ line # after,
                            read_error = rerr\<rparr>) message uid conv_id st =
         process_ai_response
           (with_stream W \<lparr>open_error = None, stream_lines = before @ after,
                            read_error = rerr\<rparr>) message uid conv_id st"
proof -
  have skip: "aiter_events W (line # after) rerr = aiter_events W after rerr"
    using prefix malformed by simp
  have "aiter_events W (before @ line # after) rerr = aiter_events W (before @ after) rerr"
  proof (induction before)
    case Nil
    then show ?case using skip by simp
  next
    case (Cons l ls)
    then show ?case
      by (simp split: sum.splits bool.splits)
  qed
  then show ?thesis
    by (simp add: process_ai_response_same_events call_dify_api_with_stream)
qed

theorem malformed_line_is_skipped_witness:
  "aiter_events (example_world token_ok noisy_lines []) noisy_lines None =
     [ev_message (py ''Hi ''), ev_message (py ''there, '')]"
proof -
  let ?W = "example_world token_ok noisy_lines []"
  have prefix: \<open>startswith (py ''data: {oops'') (py ''data: '')\<close>
    by (simp add: startswith_def)
  have malformed: \<open>json_loads ?W (drop 6 (py ''data: {oops'')) = Inl (JSONDecodeError (py ''{oops''))\<close>
    by (simp add: example_loads_simps)
  have \<open>aiter_events ?W
          ([py ''data: {"event": "message", "answer": "Hi "}''] @ py ''data: {oops'' #
           [py ''data: {"event": "message", "answer": "there, "}'']) None =
        aiter_events ?W
          ([py ''data: {"event": "message", "answer": "Hi "}''] @
           [py ''data: {"event": "message", "answer": "there, "}'']) None\<close>
    using malformed_line_is_skipped[OF prefix malformed] by blast
  then show ?thesis
    by (simp add: noisy_lines_def startswith_def example_loads_simps ev_message_def)
qed

section \<open>No exception leaves a turn\<close>

text \<open>
  Claim C7. For every input and every behaviour of the collaborators
  \<^verbatim>\<open>process_ai_response\<close> returns normally. When the outer \<^verbatim>\<open>try\<close> block
  raised \<open>e\<close> with the token assigned, what remains of the turn is one call that
  delivers the system-error text followed by \<open>str(e)\<close> to the turn's identity, whose
  own failure is swallowed; with the token unassigned the handler's attempt raises
  before the call and is swallowed as well.
\<close>

theorem process_ai_response_never_raises:
  "fst (process_ai_response W message user_id conv_id st) = Inr () \<and>
   snd (process_ai_response W message user_id conv_id st) =
     (case turn_body W message user_id conv_id st of
        (Inr acc, binding, st') \<Rightarrow> st'
      | (Inl e, None, st') \<Rightarrow> st'
      | (Inl e, Some access_token, st') \<Rightarrow>
          snd (send_feishu_message W access_token user_id
                 (system_error_prefix @ str_exn W e) st'))"
  by (simp add: process_ai_response_def notify_system_error_def
      split: prod.splits sum.splits option.splits)

theorem process_ai_response_never_raises_witness:
  "process_ai_response (example_world token_ok list_lines []) (JStr (py ''hello''))
     (JStr (py ''ou_123'')) JNull empty_state =
   (Inr (),
    empty_state\<lparr>posts := [delivery (JStr (py ''t-abc'')) (py ''ou_123'')
                             (system_error_prefix @ py ''get'')]\<rparr>)"
proof -
  let ?W = "example_world token_ok list_lines []"
  have evs: "call_dify_api ?W (JStr (py ''hello'')) (JStr (py ''ou_123'')) JNull = [JArr []]"
    by (simp add: call_dify_api_example list_lines_def startswith_def example_loads_simps)
  have body: "turn_body ?W (JStr (py ''hello'')) (JStr (py ''ou_123'')) JNull empty_state =
      (Inl (AttributeError (JArr []) (py ''get'')), Some (JStr (py ''t-abc'')), empty_state)"
    by (simp add: turn_body_def get_token_example evs handle_event_def)
  have "fst (process_ai_response ?W (JStr (py ''hello'')) (JStr (py ''ou_123'')) JNull
              empty_state) = Inr () \<and>
        snd (process_ai_response ?W (JStr (py ''hello'')) (JStr (py ''ou_123'')) JNull
              empty_state) =
          empty_state\<lparr>posts := posts empty_state @
            [delivery (JStr (py ''t-abc'')) (py ''ou_123'') (system_error_prefix @ py ''get'')]\<rparr>"
    using process_ai_response_never_raises[of ?W "JStr (py ''hello'')" "JStr (py ''ou_123'')"
        JNull empty_state]
    by (simp add: body send_feishu_message_str)
  moreover have "posts empty_state = []"
    by (simp add: empty_state_def)
  ultimately show ?thesis
    by (simp add: prod_eq_iff)
qed

section \<open>Flushing at the end of the stream\<close>

text \<open>
  Claim C8. Token acquired, identity a string, the stream a sequence of Message events
  whose fragments together stay under 50 characters (so the accumulator is under 50 after
  each of them) and are not all empty, followed by a MessageEnd: handling the Message
  events delivers nothing, and the whole turn makes exactly one delivery, whose text is
  the fragments concatenated in order.
\<close>

theorem single_flush_at_message_end:
  assumes token: "get_feishu_access_token W = Inr tok"
    and stream: "call_dify_api W message (JStr u) conv_id = evs @ [end_ev]"
    and frags: "list_all2 is_message evs frags"
    and small: "length (concat frags) < 50"
    and nonempty: "concat frags \<noteq> []"
    and ending: "is_message_end end_ev cid"
  shows "run_events W tok (JStr u) evs [] st = (Inr (concat frags), st) \<and>
         posts (snd (process_ai_response W message (JStr u) conv_id st)) =
           posts st @ [delivery tok u (concat frags)]"
proof -
  have before: "run_events W tok (JStr u) evs [] st = (Inr (concat frags), st)"
    using run_events_below_threshold[OF frags, of "[]" W tok "JStr u" st] small by simp
  have "run_events W tok (JStr u) (evs @ [end_ev]) [] st =
          handle_event W tok (JStr u) end_ev (concat frags) st"
    by (simp add: run_events_append before split: prod.splits sum.splits)
  then have "run_events W tok (JStr u) (call_dify_api W message (JStr u) conv_id) [] st =
      (Inr (concat frags),
       st\<lparr>posts := posts st @ [delivery tok u (concat frags)],
          store := (if truthy cid
                    then (store st)(KStr u \<mapsto>
                           \<lparr>conversation_id = cid, updated_at = now W (clock st)\<rparr>)
                    else store st),
          clock := (if truthy cid then Suc (clock st) else clock st)\<rparr>)"
    using nonempty by (simp add: stream handle_event_message_end_str[OF ending])
  from process_ai_response_run[OF token this] before show ?thesis by simp
qed

theorem single_flush_at_message_end_witness:
  "posts (snd (process_ai_response (example_world token_ok short_lines [])
      (JStr (py ''hello'')) (JStr (py ''ou_123'')) JNull empty_state)) =
     [delivery (JStr (py ''t-abc'')) (py ''ou_123'') (py ''Hi there, '')]"
proof -
  have frags: "list_all2 is_message [ev_message (py ''Hi ''), ev_message (py ''there, '')]
                 [py ''Hi '', py ''there, '']"
    by simp
  have small: "length (concat [py ''Hi '', py ''there, '']) < 50"
    by simp
  have nonempty: "concat [py ''Hi '', py ''there, ''] \<noteq> []"
    by simp
  show ?thesis
    using single_flush_at_message_end[where st = empty_state,
        OF get_token_example short_events frags small nonempty is_message_end_ev]
    by (simp add: empty_state_def py_append)
qed

section \<open>The challenge handshake\<close>

text \<open>
  Claim C9. When the payload has a \<^verbatim>\<open>challenge\<close> field the handler answers with
  the object of the fields \<^verbatim>\<open>challenge\<close>, holding the value received, and
  \<^verbatim>\<open>code\<close>, holding 0, and does nothing else: no lookup in the store and no task
  created, hence no token acquisition, AI call or delivery.
\<close>

theorem challenge_is_echoed:
  assumes "challenge_field W body = Some c"
  shows "feishu_webhook W cs body = (Inr (challenge_echo c), [])"
  using assms
  by (auto simp add: feishu_webhook_def webhook_try_def challenge_field_def
      split: sum.splits json.splits)

theorem challenge_is_echoed_witness:
  \<open>feishu_webhook (example_world token_ok [] []) Map.empty ''{"challenge":"abc123"}'' =
     (Inr (JObj [(py ''challenge'', JStr (py ''abc123'')), (py ''code'', JInt 0)]), [])\<close>
proof -
  have \<open>challenge_field (example_world token_ok [] []) ''{"challenge":"abc123"}'' =
          Some (JStr (py ''abc123''))\<close>
    by (simp add: challenge_field_def ascii_decode_def example_loads_simps)
  from challenge_is_echoed[OF this] show ?thesis
    by (simp add: challenge_echo_def)
qed

section \<open>Failure of token acquisition\<close>

text \<open>
  Claim C10. When \<^verbatim>\<open>get_feishu_access_token\<close> raises, for every message, identity
  and conversation identifier the turn returns normally and leaves the state as it was:
  no POST to the messages endpoint (the handler's own delivery raises on the unassigned
  \<^verbatim>\<open>access_token\<close> before any request) and no change of the store.
\<close>

theorem token_failure_is_silent:
  assumes "get_feishu_access_token W = Inl e"
  shows "process_ai_response W message user_id conv_id st = (Inr (), st)"
  using assms by (simp add: process_ai_response_def turn_body_def notify_system_error_def)

theorem token_failure_is_silent_witness:
  "process_ai_response (example_world token_down [] []) (JStr (py ''hello''))
     (JStr (py ''ou_123'')) JNull empty_state = (Inr (), empty_state)"
proof -
  have "get_feishu_access_token (example_world token_down [] []) =
          Inl (LibraryError (py ''ConnectError''))"
    by (simp add: get_feishu_access_token_def example_world_def token_down_def)
  then show ?thesis by (rule token_failure_is_silent)
qed

end
